theory Spec2Isabelle
  imports Complex_Main
begin

section \<open>Numbers, values and errors\<close>

text \<open>
  The program is a Python script.  Its floating-point numbers are modelled by the reals:
  every arithmetic expression of the source is kept as it is written, and rounding is not
  modelled.  A stop is a pair (latitude, longitude) that the script never inspects.
\<close>

type_synonym coordinate = "real \<times> real"

text \<open>
  The value stored under \<open>'estimated_time'\<close> is dynamically typed: \<open>estimate_travel_time\<close>
  returns either a \<open>str\<close> or a \<open>float\<close>.
\<close>

datatype py_value = PyStr string | PyFloat real

text \<open>The exception that the validation of scikit-learn raises on unusable training arrays.\<close>

datatype py_error = ValueError

section \<open>The delay model: \<open>LinearRegression().fit(X, y)\<close>\<close>

text \<open>
  Lines 13 to 23 of \<open>main.py\<close> build the training arrays and fit scikit-learn's
  \<open>LinearRegression\<close> with its default \<open>fit_intercept=True\<close>.  The estimator is a library
  class; what follows is its algorithm for one feature: the input is validated (at least one
  sample, as many targets as samples), both arrays are centred on their means, the centred
  system is solved in the least-squares sense with the minimum-norm solution (which is \<open>0\<close>
  when the centred feature column vanishes), and the intercept is
  \<open>y_offset - X_offset * coef\<close>.
\<close>

definition historical_distance :: "real list" where
  "historical_distance = [5, 10, 15, 20]"

definition historical_traffic_delay :: "real list" where
  "historical_traffic_delay = [5, 10, 20, 25]"

definition mean :: "real list \<Rightarrow> real" where
  "mean xs = sum_list xs / real (length xs)"

record LinearRegression =
  coef :: real
  intercept :: real

definition lstsq :: "real list \<Rightarrow> real list \<Rightarrow> real" where
  "lstsq a b =
     (let saa = sum_list (map (\<lambda>u. u * u) a);
          sab = sum_list (map2 (\<lambda>u v. u * v) a b)
      in if saa = 0 then 0 else sab / saa)"

definition fit :: "real list \<Rightarrow> real list \<Rightarrow> py_error + LinearRegression" where
  "fit X y =
     (if length X = 0 then Inl ValueError
      else if length X \<noteq> length y then Inl ValueError
      else
        let X_offset = mean X;
            y_offset = mean y;
            Xc = map (\<lambda>x. x - X_offset) X;
            yc = map (\<lambda>v. v - y_offset) y;
            w = lstsq Xc yc
        in Inr \<lparr>coef = w, intercept = y_offset - X_offset * w\<rparr>)"

text \<open>\<open>model.predict(np.array([[distance]]))[0]\<close>: the linear model at one point.\<close>

definition predict :: "LinearRegression \<Rightarrow> real \<Rightarrow> real" where
  "predict model distance = distance * coef model + intercept model"

subsection \<open>The closed form of the specification\<close>

text \<open>
  The specification describes the fit by the textbook formulas: slope = covariance of
  distance and delay over variance of distance, intercept = mean delay minus slope times
  mean distance.  These definitions follow those words; they are compared with \<open>fit\<close> below.
\<close>

definition covariance :: "real list \<Rightarrow> real list \<Rightarrow> real" where
  "covariance xs ys = mean (map2 (\<lambda>x v. (x - mean xs) * (v - mean ys)) xs ys)"

definition variance :: "real list \<Rightarrow> real" where
  "variance xs = mean (map (\<lambda>x. (x - mean xs) * (x - mean xs)) xs)"

definition spec_slope :: "real list \<Rightarrow> real list \<Rightarrow> real" where
  "spec_slope xs ys = covariance xs ys / variance xs"

definition spec_intercept :: "real list \<Rightarrow> real list \<Rightarrow> real" where
  "spec_intercept xs ys = mean ys - spec_slope xs ys * mean xs"

text \<open>
  The quantity that ordinary least squares minimises: the sum of the squared residuals of a
  line on the training set.
\<close>

definition sse :: "LinearRegression \<Rightarrow> real list \<Rightarrow> real list \<Rightarrow> real" where
  "sse model X y =
     sum_list (map2 (\<lambda>x v. (v - predict model x) * (v - predict model x)) X y)"

text \<open>Agreement to one decimal place, the precision at which the specification quotes numbers.\<close>

definition approx :: "real \<Rightarrow> real \<Rightarrow> bool" where
  "approx a b = (\<bar>a - b\<bar> \<le> 1 / 20)"

section \<open>The traffic provider: \<open>get_real_time_traffic_data\<close>\<close>

text \<open>
  The provider is reached through the \<open>requests\<close> library.  Every failure of
  \<open>requests.get\<close>, \<open>raise_for_status\<close> and \<open>json\<close> is an instance of
  \<open>requests.exceptions.RequestException\<close>; the constructors below are the ones these three
  calls raise.
\<close>

datatype RequestException = ConnectionError | Timeout | HTTPError nat | JSONDecodeError

text \<open>
  A response carries its status code and its body.  The body either is not JSON, or is the
  JSON document \<open>null\<close> (which \<open>json()\<close> decodes to Python's \<open>None\<close>), or is another
  JSON document; the documents themselves are opaque values of type \<open>'j\<close>.
\<close>

datatype 'j content = NotJson | JsonNull | JsonDoc 'j

record 'j Response =
  status_code :: nat
  body :: "'j content"

definition raise_for_status :: "'j Response \<Rightarrow> RequestException + unit" where
  "raise_for_status response =
     (if 400 \<le> status_code response \<and> status_code response < 600
      then Inl (HTTPError (status_code response)) else Inr ())"

definition json :: "'j Response \<Rightarrow> RequestException + 'j option" where
  "json response =
     (case body response of
        NotJson \<Rightarrow> Inl JSONDecodeError
      | JsonNull \<Rightarrow> Inr None
      | JsonDoc d \<Rightarrow> Inr (Some d))"

text \<open>
  The outside world has a state of type \<open>'w\<close>.  \<open>requests_get\<close> is the network call: given
  the URL and the current world it either raises or returns a response, and moves the world
  on.  \<open>str\<close> is Python's formatting of a stop inside the f-string.
\<close>

record ('w, 'j) env =
  requests_get :: "string \<Rightarrow> 'w \<Rightarrow> (RequestException + 'j Response) \<times> 'w"
  str :: "coordinate \<Rightarrow> string"

definition traffic_url :: "('w, 'j) env \<Rightarrow> string \<Rightarrow> coordinate \<Rightarrow> coordinate \<Rightarrow> string" where
  "traffic_url E api_key start endp =
     ''https://api.traffic-service.com/data?api_key='' @ api_key
       @ ''&start='' @ str E start @ ''&end='' @ str E endp"

text \<open>
  The \<open>try\<close> block runs three calls in sequence; the handler catches
  \<open>RequestException\<close> from any of them and returns \<open>None\<close>.  The message the handler
  prints is not part of the result and is left out.
\<close>

definition get_real_time_traffic_data ::
    "('w, 'j) env \<Rightarrow> string \<Rightarrow> coordinate \<Rightarrow> coordinate \<Rightarrow> 'w \<Rightarrow> 'j option \<times> 'w" where
  "get_real_time_traffic_data E api_key start endp w =
     (let url = traffic_url E api_key start endp;
          (res, w') = requests_get E url w
      in case res of
           Inl e \<Rightarrow> (None, w')
         | Inr response \<Rightarrow>
             (case raise_for_status response of
                Inl e \<Rightarrow> (None, w')
              | Inr u \<Rightarrow>
                  (case json response of
                     Inl e \<Rightarrow> (None, w')
                   | Inr v \<Rightarrow> (v, w'))))"

section \<open>The leg estimator\<close>

definition unavailable :: string where
  "unavailable = ''Unable to estimate time due to lack of traffic data.''"

text \<open>The fitted model is a module-level global of the script; here it is a parameter.\<close>

definition estimate_travel_time :: "LinearRegression \<Rightarrow> real \<Rightarrow> 'j option \<Rightarrow> py_value" where
  "estimate_travel_time model distance real_traffic_data =
     (case real_traffic_data of
        None \<Rightarrow> PyStr unavailable
      | Some d \<Rightarrow>
          (let traffic_delay = predict model distance;
               real_time_factor = 1;
               estimated = (distance / 50) * 60 + traffic_delay * real_time_factor
           in PyFloat estimated))"

text \<open>One entry of the returned list: the dictionary with keys \<open>from\<close>, \<open>to\<close>, \<open>estimated_time\<close>.\<close>

record leg =
  leg_from :: coordinate
  leg_to :: coordinate
  estimated_time :: py_value

text \<open>
  The \<open>for\<close> loop over \<open>range(len(locations) - 1)\<close>, as a recursion over the remaining
  indices.  It threads the world through the provider calls and appends one leg per index.
\<close>

fun optimize_loop ::
    "('w, 'j) env \<Rightarrow> LinearRegression \<Rightarrow> string \<Rightarrow> coordinate list \<Rightarrow> nat list \<Rightarrow> 'w
       \<Rightarrow> leg list \<Rightarrow> leg list \<times> 'w" where
  "optimize_loop E model api_key locations [] w optimized_route = (optimized_route, w)"
| "optimize_loop E model api_key locations (i # is) w optimized_route =
     (let start = locations ! i;
          endp = locations ! (i + 1);
          distance = 10;
          (traffic_data, w') = get_real_time_traffic_data E api_key start endp w;
          est = estimate_travel_time model distance traffic_data
      in optimize_loop E model api_key locations is w'
           (optimized_route @ [\<lparr>leg_from = start, leg_to = endp, estimated_time = est\<rparr>]))"

text \<open>
  \<open>range(len(locations) - 1)\<close> is empty for the empty list (\<open>range(-1)\<close>), which is what
  the truncating subtraction on \<open>nat\<close> gives.  Every index \<open>i\<close> of the range has
  \<open>i + 1 < len(locations)\<close>, so both list reads are in range.
\<close>

definition optimize_route ::
    "('w, 'j) env \<Rightarrow> LinearRegression \<Rightarrow> coordinate list \<Rightarrow> string \<Rightarrow> 'w \<Rightarrow> leg list \<times> 'w" where
  "optimize_route E model locations api_key w =
     optimize_loop E model api_key locations [0..<length locations - 1] w []"

text \<open>
  The snapshots that the loop obtains, in order: the same provider calls on the same worlds,
  keeping only what each call returned.
\<close>

fun fetched ::
    "('w, 'j) env \<Rightarrow> string \<Rightarrow> coordinate list \<Rightarrow> nat list \<Rightarrow> 'w \<Rightarrow> 'j option list" where
  "fetched E api_key locations [] w = []"
| "fetched E api_key locations (i # is) w =
     (let (traffic_data, w') =
            get_real_time_traffic_data E api_key (locations ! i) (locations ! (i + 1)) w
      in traffic_data # fetched E api_key locations is w')"

definition snapshots :: "('w, 'j) env \<Rightarrow> string \<Rightarrow> coordinate list \<Rightarrow> 'w \<Rightarrow> 'j option list" where
  "snapshots E api_key locations w = fetched E api_key locations [0..<length locations - 1] w"

text \<open>
  The worlds in which the loop makes its provider calls, in order: the world of call \<open>j\<close> is
  the one the previous call left behind.
\<close>

fun worlds ::
    "('w, 'j) env \<Rightarrow> string \<Rightarrow> coordinate list \<Rightarrow> nat list \<Rightarrow> 'w \<Rightarrow> 'w list" where
  "worlds E api_key locations [] w = []"
| "worlds E api_key locations (i # is) w =
     w # worlds E api_key locations is
           (snd (get_real_time_traffic_data E api_key (locations ! i) (locations ! (i + 1)) w))"

text \<open>
  A provider failure: \<open>requests.get\<close> raised (a transport error), or it returned a response
  whose status \<open>raise_for_status\<close> rejects.
\<close>

definition provider_failure :: "(RequestException + 'j Response) \<Rightarrow> bool" where
  "provider_failure res =
     (case res of
        Inl e \<Rightarrow> True
      | Inr response \<Rightarrow> 400 \<le> status_code response \<and> status_code response < 600)"

text \<open>
  The script as a whole: the module body fits the model first (an exception there ends the
  process before \<open>main\<close> is reached), then \<open>main\<close> calls \<open>optimize_route\<close>.  The training
  arrays, the stops and the key are constants of the script and parameters here.
\<close>

definition run_module ::
    "('w, 'j) env \<Rightarrow> real list \<Rightarrow> real list \<Rightarrow> coordinate list \<Rightarrow> string \<Rightarrow> 'w
       \<Rightarrow> (py_error + leg list) \<times> 'w" where
  "run_module E X y locations api_key w =
     (case fit X y of
        Inl e \<Rightarrow> (Inl e, w)
      | Inr model \<Rightarrow>
          (let (route, w') = optimize_route E model locations api_key w
           in (Inr route, w')))"

subsection \<open>Concrete providers and stops\<close>

text \<open>
  A provider whose world counts the calls: the first call of every three succeeds, the second
  fails in transport, the third answers with status 503.
\<close>

definition flaky :: "(nat, unit) env" where
  "flaky =
     \<lparr>requests_get = (\<lambda>url n.
         (if n mod 3 = 0 then Inr \<lparr>status_code = 200, body = JsonDoc ()\<rparr>
          else if n mod 3 = 1 then Inl ConnectionError
          else Inr \<lparr>status_code = 503, body = NotJson\<rparr>, Suc n)),
      str = (\<lambda>c. ''stop'')\<rparr>"

text \<open>
  Providers that answer every call in the same way, whatever the state of the world: with
  the document \<open>d\<close>, and with the unit document.
\<close>

definition steady_with :: "'j \<Rightarrow> (nat, 'j) env" where
  "steady_with d =
     \<lparr>requests_get = (\<lambda>url n. (Inr \<lparr>status_code = 200, body = JsonDoc d\<rparr>, Suc n)),
      str = (\<lambda>c. ''stop'')\<rparr>"

definition steady :: "(nat, unit) env" where
  "steady = steady_with ()"

text \<open>The least-squares line of the training data of the script, in exact arithmetic.\<close>

definition fitted :: LinearRegression where
  "fitted = \<lparr>coef = 7 / 5, intercept = - 5 / 2\<rparr>"

text \<open>The three stops of \<open>main\<close>, and the same with a fourth stop added.\<close>

definition stops3 :: "coordinate list" where
  "stops3 = [(37.7749, -122.4194), (34.0522, -118.2437), (36.1699, -115.1398)]"

definition stops4 :: "coordinate list" where
  "stops4 = stops3 @ [(40.7128, -74.0060)]"

section \<open>Properties of the delay model\<close>

lemma sum_list_sq_nonneg: "0 \<le> sum_list (map (\<lambda>u::real. u * u) a)"
  by (induction a) auto

lemma sum_list_sq_zero:
  "sum_list (map (\<lambda>u::real. u * u) a) = 0 \<Longrightarrow> u \<in> set a \<Longrightarrow> u = 0"
proof (induction a)
  case Nil
  then show ?case by simp
next
  case (Cons v a)
  have nn: "0 \<le> sum_list (map (\<lambda>u. u * u) a)" by (rule sum_list_sq_nonneg)
  have sq: "0 \<le> v * v" by simp
  from Cons.prems(1) have "v * v + sum_list (map (\<lambda>u. u * u) a) = 0" by simp
  with nn sq have "v * v = 0" and "sum_list (map (\<lambda>u. u * u) a) = 0" by linarith+
  with Cons show ?case by auto
qed

text \<open>With two distinct distances the centred column does not vanish, whatever the centre.\<close>

lemma centred_nonzero:
  assumes "2 \<le> card (set X)"
  shows "sum_list (map (\<lambda>u. u * u) (map (\<lambda>x. x - c) X)) \<noteq> (0::real)"
proof
  assume z: "sum_list (map (\<lambda>u. u * u) (map (\<lambda>x. x - c) X)) = 0"
  have "x = c" if "x \<in> set X" for x
  proof -
    from that have "x - c \<in> set (map (\<lambda>x. x - c) X)" by simp
    with z have "x - c = 0" by (rule sum_list_sq_zero)
    then show ?thesis by simp
  qed
  then have "set X \<subseteq> {c}" by auto
  then have "card (set X) \<le> card {c}" by (intro card_mono) auto
  with assms show False by simp
qed

lemma map2_centred:
  "map2 (\<lambda>u v. u * v) (map (\<lambda>x. x - a) X) (map (\<lambda>v. v - b) y)
     = map2 (\<lambda>x v. (x - a) * (v - (b::real))) X y"
  by (simp add: zip_map_map split_def)

lemma fit_closed:
  assumes "length X = length y" "2 \<le> card (set X)"
  shows "fit X y = Inr \<lparr>coef = spec_slope X y, intercept = spec_intercept X y\<rparr>"
proof -
  from assms(2) have ne: "X \<noteq> []" by auto
  have nz: "sum_list (map (\<lambda>u. u * u) (map (\<lambda>x. x - mean X) X)) \<noteq> 0"
    using assms(2) by (rule centred_nonzero)
  have sl: "lstsq (map (\<lambda>x. x - mean X) X) (map (\<lambda>v. v - mean y) y) = spec_slope X y"
    using nz ne assms(1)
    by (simp add: lstsq_def spec_slope_def covariance_def variance_def
        mean_def[of "map f xs" for f xs] map2_centred comp_def)
  from ne assms(1) have "y \<noteq> []" by auto
  with ne assms(1) sl show ?thesis by (simp add: fit_def spec_intercept_def Let_def)
qed

lemma fit_error: "fit X y = Inl e \<Longrightarrow> run_module E X y locations api_key w = (Inl e, w)"
  by (simp add: run_module_def)

lemma sum_sq_split:
  "sum_list (map (\<lambda>p. (R p + D p) * (R p + D p)) ps)
     = sum_list (map (\<lambda>p. R p * R p) ps) + 2 * sum_list (map (\<lambda>p. R p * D p) ps)
       + sum_list (map (\<lambda>p. D p * D p) ps :: real list)"
  by (induction ps) (simp_all add: algebra_simps)

lemma sum_affine:
  "sum_list (map (\<lambda>p. R p * (g * U p + k)) ps)
     = g * sum_list (map (\<lambda>p. R p * U p) ps) + k * sum_list (map R ps :: real list)"
  by (induction ps) (simp_all add: algebra_simps)

lemma sum_resid:
  "sum_list (map (\<lambda>p. (V p - c * U p) * W p) ps)
     = sum_list (map (\<lambda>p. V p * W p) ps) - c * sum_list (map (\<lambda>p. U p * W p) ps :: real list)"
  by (induction ps) (simp_all add: algebra_simps)

lemma sum_centred:
  "sum_list (map (\<lambda>p. f p - m) ps) = sum_list (map f ps) - real (length ps) * (m::real)"
  by (induction ps) (simp_all add: algebra_simps)

lemma sum_sq_nonneg: "0 \<le> sum_list (map (\<lambda>p. D p * D p) ps :: real list)"
  by (induction ps) auto

lemma sum_zero_factor:
  assumes "sum_list (map (\<lambda>p. U p * U p) ps) = (0::real)"
  shows "sum_list (map (\<lambda>p. V p * U p) ps) = 0"
proof -
  have "U p = 0" if "p \<in> set ps" for p
  proof -
    from that have "U p \<in> set (map U ps)" by simp
    moreover from assms have "sum_list (map (\<lambda>u. u * u) (map U ps)) = 0" by (simp add: comp_def)
    ultimately show ?thesis by (rule sum_list_sq_zero[rotated])
  qed
  then have eq: "map (\<lambda>p. V p * U p) ps = map (\<lambda>p. 0) ps" by simp
  show ?thesis unfolding eq by simp
qed

text \<open>
  The fitted line is a least-squares line: no other slope and intercept has a smaller sum of
  squared residuals on the training set.  This holds for every training set that \<open>fit\<close>
  accepts, the degenerate ones included.
\<close>

lemma fit_least_squares:
  assumes f: "fit X y = Inr model"
  shows "sse model X y \<le> sse \<lparr>coef = a, intercept = b\<rparr> X y"
proof -
  from f have ne: "X \<noteq> []" and len: "length X = length y"
    by (auto simp add: fit_def split: if_splits)
  define ps where "ps = zip X y"
  define mx my where "mx = mean X" and "my = mean y"
  define U where "U = (\<lambda>p::real \<times> real. fst p - mx)"
  define V where "V = (\<lambda>p::real \<times> real. snd p - my)"
  define w where "w = coef model"
  have fs: "map fst ps = X" and sn: "map snd ps = y" and lp: "length ps = length X"
    using len by (simp_all add: ps_def)
  have n0: "real (length X) \<noteq> 0" using ne by simp
  have sU: "sum_list (map U ps) = 0"
  proof -
    have "sum_list (map U ps) = sum_list (map fst ps) - real (length ps) * mx"
      unfolding U_def by (rule sum_centred)
    also have "\<dots> = 0" using n0 by (simp add: fs lp mx_def mean_def)
    finally show ?thesis .
  qed
  have sV: "sum_list (map V ps) = 0"
  proof -
    have "sum_list (map V ps) = sum_list (map snd ps) - real (length ps) * my"
      unfolding V_def by (rule sum_centred)
    also have "\<dots> = 0" using n0 by (simp add: sn lp len my_def mean_def)
    finally show ?thesis .
  qed
  have Xc: "map (\<lambda>x. x - mx) X = map U ps"
    unfolding fs[symmetric] U_def by (simp add: comp_def)
  have yc: "map (\<lambda>v. v - my) y = map V ps"
    unfolding sn[symmetric] V_def by (simp add: comp_def)
  have z: "zip (map U ps) (map V ps) = map (\<lambda>p. (U p, V p)) ps"
    by (induction ps) simp_all
  from f ne len have w_eq: "w = lstsq (map U ps) (map V ps)"
    and c_eq: "intercept model = my - mx * w"
    by (auto simp add: fit_def Let_def w_def mx_def my_def Xc[unfolded mx_def] yc[unfolded my_def]
        split: if_splits)
  have normal: "sum_list (map (\<lambda>p. V p * U p) ps) = w * sum_list (map (\<lambda>p. U p * U p) ps)"
  proof (cases "sum_list (map (\<lambda>p. U p * U p) ps) = 0")
    case True
    then show ?thesis by (simp add: sum_zero_factor)
  next
    case False
    then show ?thesis
      by (simp add: w_eq lstsq_def z comp_def mult.commute)
  qed
  define R where "R = (\<lambda>p. V p - w * U p)"
  define k where "k = my - a * mx - b"
  define D where "D = (\<lambda>p. (w - a) * U p + k)"
  have sR: "sum_list (map R ps) = 0"
    using sum_resid[of V w U "\<lambda>p. 1" ps] sU sV by (simp add: R_def)
  have sRU: "sum_list (map (\<lambda>p. R p * U p) ps) = 0"
    unfolding R_def using normal by (simp add: sum_resid)
  have cross: "sum_list (map (\<lambda>p. R p * D p) ps) = 0"
    unfolding D_def by (simp add: sum_affine sR sRU)
  have fitted_res: "sse model X y = sum_list (map (\<lambda>p. R p * R p) ps)"
    unfolding sse_def ps_def[symmetric]
    by (rule arg_cong[where f = sum_list])
      (auto simp add: predict_def c_eq R_def U_def V_def w_def algebra_simps)
  have other_res: "sse \<lparr>coef = a, intercept = b\<rparr> X y
      = sum_list (map (\<lambda>p. (R p + D p) * (R p + D p)) ps)"
    unfolding sse_def ps_def[symmetric]
    by (rule arg_cong[where f = sum_list])
      (auto simp add: predict_def R_def D_def k_def U_def V_def algebra_simps)
  have "sse \<lparr>coef = a, intercept = b\<rparr> X y
      = sse model X y + sum_list (map (\<lambda>p. D p * D p) ps)"
    by (simp add: other_res fitted_res sum_sq_split cross)
  with sum_sq_nonneg[of D ps] show ?thesis by simp
qed

text \<open>
  C4, as the specification states it: on the training set of the script the slope is about
  1.3 and \<open>predict(10)\<close> about 10.5.  The fitted slope is a tenth away from 1.3 and the
  prediction a whole unit away from 10.5.
\<close>

theorem fit_scenario_not_as_quoted:
  "\<not> approx (coef (projr (fit historical_distance historical_traffic_delay))) 1.3
   \<and> \<not> approx (predict (projr (fit historical_distance historical_traffic_delay)) 10) 10.5"
  by (simp add: fit_def historical_distance_def historical_traffic_delay_def mean_def lstsq_def
      predict_def approx_def)

text \<open>
  C4, amended: fitting the model on distance = [5, 10, 15, 20], delay = [5, 10, 20, 25]
  succeeds and yields slope approximately 1.4 and intercept approximately -2.5,
  \<open>predict(10)\<close> yields approximately 11.5, and these match the closed-form least-squares
  calculation on the same data.
\<close>

theorem fit_scenario:
  "\<not> isl (fit historical_distance historical_traffic_delay)
   \<and> approx (coef (projr (fit historical_distance historical_traffic_delay))) 1.4
   \<and> approx (intercept (projr (fit historical_distance historical_traffic_delay))) (- 2.5)
   \<and> approx (predict (projr (fit historical_distance historical_traffic_delay)) 10) 11.5
   \<and> approx (coef (projr (fit historical_distance historical_traffic_delay)))
         (spec_slope historical_distance historical_traffic_delay)
   \<and> approx (intercept (projr (fit historical_distance historical_traffic_delay)))
         (spec_intercept historical_distance historical_traffic_delay)
   \<and> approx (predict (projr (fit historical_distance historical_traffic_delay)) 10)
         (spec_slope historical_distance historical_traffic_delay * 10
            + spec_intercept historical_distance historical_traffic_delay)"
  by (simp add: fit_def historical_distance_def historical_traffic_delay_def mean_def lstsq_def
      predict_def spec_slope_def spec_intercept_def covariance_def variance_def approx_def)

text \<open>
  C5, as the specification states it: a training set with fewer than two samples, or with
  all distances identical, makes \<open>fit\<close> fail.  With one sample, and with two samples at the
  same distance, the fit returns a model.
\<close>

theorem fit_degenerate_succeeds:
  "fit [5] [5] = Inr \<lparr>coef = 0, intercept = 5\<rparr>
   \<and> fit [5, 5] [1, 3] = Inr \<lparr>coef = 0, intercept = 2\<rparr>"
  by (simp add: fit_def mean_def lstsq_def)

text \<open>
  C5, amended: \<open>fit\<close> does not reject degenerate training data: there are training sets
  with fewer than two samples, and training sets of several samples that share one distance,
  on which \<open>fit\<close> returns a model; an error that \<open>fit\<close> does raise ends the script with
  that error before any route estimation, leaving the world untouched; and, in exact
  arithmetic, \<open>fit\<close> succeeds on every training set with at least two distinct distance
  values.
\<close>

theorem fit_accepts_degenerate:
  "(\<exists>Xs ys. length Xs < 2 \<and> \<not> isl (fit Xs ys))
   \<and> (\<exists>Xs ys. 2 \<le> length Xs \<and> card (set Xs) = 1 \<and> \<not> isl (fit Xs ys))
   \<and> (fit X y = Inl e \<longrightarrow> run_module E X y locations api_key w = (Inl e, w))
   \<and> (length X = length y \<and> 2 \<le> card (set X) \<longrightarrow> \<not> isl (fit X y))"
proof -
  have one: "\<exists>Xs ys. length Xs < 2 \<and> \<not> isl (fit Xs ys)"
    by (rule exI[of _ "[5]"], rule exI[of _ "[5]"]) (simp add: fit_def Let_def)
  have same: "\<exists>Xs ys. 2 \<le> length Xs \<and> card (set Xs) = 1 \<and> \<not> isl (fit Xs ys)"
    by (rule exI[of _ "[5, 5]"], rule exI[of _ "[1, 3]"]) (simp add: fit_def Let_def)
  from one same fit_error[of X y e E locations api_key w] fit_closed[of X y]
  show ?thesis by auto
qed

theorem fit_accepts_degenerate_witness:
  "fit [] [5] = Inl ValueError
   \<and> run_module flaky [] [5] stops3 ''k'' 0 = (Inl ValueError, 0)
   \<and> length historical_distance = length historical_traffic_delay
   \<and> 2 \<le> card (set historical_distance)
   \<and> \<not> isl (fit historical_distance historical_traffic_delay)"
proof -
  have a: "fit [] [5] = Inl ValueError" by (simp add: fit_def)
  have c: "2 \<le> card (set historical_distance)" by (simp add: historical_distance_def)
  have l: "length historical_distance = length historical_traffic_delay"
    by (simp add: historical_distance_def historical_traffic_delay_def)
  note T1 = fit_accepts_degenerate[of "[]" "[5]" ValueError flaky stops3 "''k''" 0]
  note T2 = fit_accepts_degenerate[of historical_distance historical_traffic_delay
      ValueError flaky stops3 "''k''" 0]
  from T1 a have r: "run_module flaky [] [5] stops3 ''k'' 0 = (Inl ValueError, 0)" by blast
  from T2 l c have s: "\<not> isl (fit historical_distance historical_traffic_delay)" by blast
  from a r l c s show ?thesis by blast
qed

text \<open>
  C6: for every training set with at least two distinct distance values, the fitted model
  is the closed form of simple linear regression, slope = covariance / variance and
  intercept = mean delay - slope * mean distance, \<open>predict\<close> evaluates
  slope * d + intercept, and that line is a least-squares line of the training set.  Over
  the reals the agreement is exact.
\<close>

theorem fit_is_closed_form:
  assumes "length X = length y" and "2 \<le> card (set X)"
  shows "fit X y = Inr \<lparr>coef = spec_slope X y, intercept = spec_intercept X y\<rparr>
       \<and> predict \<lparr>coef = spec_slope X y, intercept = spec_intercept X y\<rparr> d
           = spec_slope X y * d + spec_intercept X y
       \<and> sse \<lparr>coef = spec_slope X y, intercept = spec_intercept X y\<rparr> X y
           \<le> sse \<lparr>coef = a, intercept = b\<rparr> X y"
  using fit_closed[OF assms] fit_least_squares[OF fit_closed[OF assms], of a b]
  by (simp add: predict_def)

theorem fit_is_closed_form_witness:
  "length historical_distance = length historical_traffic_delay
   \<and> 2 \<le> card (set historical_distance)
   \<and> fit historical_distance historical_traffic_delay
       = Inr \<lparr>coef = spec_slope historical_distance historical_traffic_delay,
              intercept = spec_intercept historical_distance historical_traffic_delay\<rparr>
   \<and> predict \<lparr>coef = spec_slope historical_distance historical_traffic_delay,
              intercept = spec_intercept historical_distance historical_traffic_delay\<rparr> 10
       = spec_slope historical_distance historical_traffic_delay * 10
         + spec_intercept historical_distance historical_traffic_delay
   \<and> sse \<lparr>coef = spec_slope historical_distance historical_traffic_delay,
              intercept = spec_intercept historical_distance historical_traffic_delay\<rparr>
         historical_distance historical_traffic_delay
       \<le> sse \<lparr>coef = 13 / 10, intercept = - 5 / 2\<rparr>
           historical_distance historical_traffic_delay"
proof -
  have l: "length historical_distance = length historical_traffic_delay"
    by (simp add: historical_distance_def historical_traffic_delay_def)
  have c: "2 \<le> card (set historical_distance)"
    by (simp add: historical_distance_def)
  from fit_is_closed_form[OF l c, of 10 "13 / 10" "- 5 / 2"] l c show ?thesis by simp
qed

section \<open>Properties of the leg estimator\<close>

lemma loop_char:
  "fst (optimize_loop E m k locs is w acc) =
     acc @ map2 (\<lambda>i d. \<lparr>leg_from = locs ! i, leg_to = locs ! (i + 1),
                        estimated_time = estimate_travel_time m 10 d\<rparr>) is (fetched E k locs is w)"
  by (induction "is" arbitrary: w acc) (auto split: prod.splits)

lemma length_fetched: "length (fetched E k locs is w) = length is"
  by (induction "is" arbitrary: w) (auto split: prod.splits)

lemma length_snapshots: "length (snapshots E k locs w) = length locs - 1"
  by (simp add: snapshots_def length_fetched)

lemma route_char:
  "fst (optimize_route E m locs k w) =
     map2 (\<lambda>i d. \<lparr>leg_from = locs ! i, leg_to = locs ! (i + 1),
                   estimated_time = estimate_travel_time m 10 d\<rparr>)
       [0..<length locs - 1] (snapshots E k locs w)"
  by (simp add: optimize_route_def snapshots_def loop_char)

lemma length_route: "length (fst (optimize_route E m locs k w)) = length locs - 1"
  by (simp add: route_char length_snapshots)

lemma route_nth:
  assumes "i < length locs - 1"
  shows "fst (optimize_route E m locs k w) ! i =
     \<lparr>leg_from = locs ! i, leg_to = locs ! (i + 1),
      estimated_time = estimate_travel_time m 10 (snapshots E k locs w ! i)\<rparr>"
  using assms by (simp add: route_char length_snapshots)

lemma route_from: "map leg_from (fst (optimize_route E m locs k w)) = butlast locs"
  by (rule nth_equalityI) (simp_all add: length_route route_nth nth_butlast)

lemma route_to: "map leg_to (fst (optimize_route E m locs k w)) = tl locs"
  by (rule nth_equalityI) (simp_all add: length_route route_nth nth_tl)

text \<open>
  C1: for N stops the returned route has exactly max(N - 1, 0) legs, in input order, leg
  \<open>i\<close> running from stop \<open>i\<close> to stop \<open>i + 1\<close>; for N at most 1 the route is
  empty.  The function is total: no input makes it raise.
\<close>

theorem optimize_route_legs:
  "int (length (fst (optimize_route E model locations api_key w)))
     = max (int (length locations) - 1) 0
   \<and> map leg_from (fst (optimize_route E model locations api_key w)) = butlast locations
   \<and> map leg_to (fst (optimize_route E model locations api_key w)) = tl locations
   \<and> (\<forall>i < length locations - 1.
         leg_from (fst (optimize_route E model locations api_key w) ! i) = locations ! i
       \<and> leg_to (fst (optimize_route E model locations api_key w) ! i) = locations ! (i + 1))
   \<and> (length locations \<le> 1 \<longrightarrow> fst (optimize_route E model locations api_key w) = [])"
proof -
  have "length locations \<le> 1 \<longrightarrow> fst (optimize_route E model locations api_key w) = []"
    using length_route[of E model locations api_key w] by auto
  moreover have "int (length (fst (optimize_route E model locations api_key w)))
      = max (int (length locations) - 1) 0"
    by (simp add: length_route)
  ultimately show ?thesis
    by (simp add: route_from route_to route_nth)
qed

theorem optimize_route_legs_witness:
  "(0::nat) < length stops3 - 1
   \<and> length (fst (optimize_route flaky fitted stops3 ''k'' 0)) = 2
   \<and> map leg_from (fst (optimize_route flaky fitted stops3 ''k'' 0)) = [stops3 ! 0, stops3 ! 1]
   \<and> map leg_to (fst (optimize_route flaky fitted stops3 ''k'' 0)) = [stops3 ! 1, stops3 ! 2]
   \<and> leg_from (fst (optimize_route flaky fitted stops3 ''k'' 0) ! 0) = stops3 ! 0
   \<and> leg_to (fst (optimize_route flaky fitted stops3 ''k'' 0) ! 0) = stops3 ! 1
   \<and> length [hd stops3] \<le> 1
   \<and> fst (optimize_route flaky fitted [hd stops3] ''k'' 0) = []"
  using optimize_route_legs[of flaky fitted stops3 "''k''" 0]
    optimize_route_legs[of flaky fitted "[hd stops3]" "''k''" 0]
  by (simp add: stops3_def)

text \<open>
  C2: when the snapshot is present, the estimate is exactly
  \<open>(distance / 50) * 60 + model.predict(distance) * 1\<close>; in a route this holds for every
  consecutive pair whose snapshot is present, at the distance 10 the loop passes.
\<close>

theorem present_estimate:
  "estimate_travel_time model distance (Some d) =
     PyFloat ((distance / 50) * 60 + predict model distance * 1)
   \<and> (\<forall>i < length locations - 1. snapshots E api_key locations w ! i \<noteq> None \<longrightarrow>
         estimated_time (fst (optimize_route E model locations api_key w) ! i) =
           PyFloat ((10 / 50) * 60 + predict model 10 * 1))"
  by (auto simp add: route_nth estimate_travel_time_def)

theorem present_estimate_witness:
  "(0::nat) < length stops3 - 1
   \<and> snapshots flaky ''k'' stops3 0 ! 0 \<noteq> None
   \<and> estimated_time
         (fst (optimize_route flaky \<lparr>coef = 7 / 5, intercept = - 5 / 2\<rparr> stops3 ''k'' 0) ! 0)
       = PyFloat (47 / 2)"
proof -
  have s: "snapshots flaky ''k'' stops3 0 = [Some (), None]"
    by (simp add: snapshots_def stops3_def flaky_def get_real_time_traffic_data_def upt_rec
        raise_for_status_def json_def)
  from present_estimate[of "\<lparr>coef = 7 / 5, intercept = - 5 / 2\<rparr>" 10 "()" stops3 flaky "''k''" 0] s
  show ?thesis by (simp add: stops3_def predict_def)
qed

text \<open>
  C3: when the snapshot is absent, the estimate is the string
  "Unable to estimate time due to lack of traffic data." and no number; in a route this
  holds for every consecutive pair whose snapshot is absent.
\<close>

theorem absent_estimate:
  "estimate_travel_time model distance None =
     PyStr ''Unable to estimate time due to lack of traffic data.''
   \<and> (\<forall>i < length locations - 1. snapshots E api_key locations w ! i = None \<longrightarrow>
         estimated_time (fst (optimize_route E model locations api_key w) ! i) =
           PyStr ''Unable to estimate time due to lack of traffic data.''
       \<and> (\<forall>t. estimated_time (fst (optimize_route E model locations api_key w) ! i)
                \<noteq> PyFloat t))"
  by (simp add: route_nth estimate_travel_time_def unavailable_def)

theorem absent_estimate_witness:
  "(1::nat) < length stops3 - 1
   \<and> snapshots flaky ''k'' stops3 0 ! 1 = None
   \<and> estimated_time (fst (optimize_route flaky fitted stops3 ''k'' 0) ! 1)
       = PyStr ''Unable to estimate time due to lack of traffic data.''"
proof -
  have s: "snapshots flaky ''k'' stops3 0 = [Some (), None]"
    by (simp add: snapshots_def stops3_def flaky_def get_real_time_traffic_data_def upt_rec
        raise_for_status_def json_def)
  have n: "(1::nat) < length stops3 - 1" by (simp add: stops3_def)
  from absent_estimate[of fitted 10 stops3 flaky "''k''" 0, THEN conjunct2, rule_format, of 1] s n
  show ?thesis by simp
qed

lemma get_failure:
  assumes "provider_failure (fst (requests_get E (traffic_url E k s e) w))"
  shows "fst (get_real_time_traffic_data E k s e w) = None"
  using assms
  by (auto simp add: get_real_time_traffic_data_def provider_failure_def raise_for_status_def
      Let_def split: prod.splits sum.splits)

lemma fetched_nth:
  "j < length is \<Longrightarrow>
   fetched E k locs is w ! j =
     fst (get_real_time_traffic_data E k (locs ! (is ! j)) (locs ! (is ! j + 1))
            (worlds E k locs is w ! j))"
proof (induction "is" arbitrary: w j)
  case Nil
  then show ?case by simp
next
  case (Cons i "is")
  show ?case
  proof (cases j)
    case 0
    then show ?thesis by (simp split: prod.splits)
  next
    case (Suc j')
    with Cons.prems have "j' < length is" by simp
    from Cons.IH[OF this] Suc show ?thesis by (simp split: prod.splits)
  qed
qed

text \<open>
  C7: a provider failure (a transport error of \<open>requests.get\<close>, or a response with an
  error status) is not propagated: the call returns the absent snapshot, the route still has
  all its legs, and the leg of every failed call is present with the unavailable marker.
\<close>

theorem provider_failure_absorbed:
  "(provider_failure (fst (requests_get E (traffic_url E api_key start endp) w'))
      \<longrightarrow> fst (get_real_time_traffic_data E api_key start endp w') = None)
   \<and> length (fst (optimize_route E model locations api_key w)) = length locations - 1
   \<and> (\<forall>i < length locations - 1.
        provider_failure
          (fst (requests_get E (traffic_url E api_key (locations ! i) (locations ! (i + 1)))
                  (worlds E api_key locations [0..<length locations - 1] w ! i)))
        \<longrightarrow> fst (optimize_route E model locations api_key w) ! i
              = \<lparr>leg_from = locations ! i, leg_to = locations ! (i + 1),
                 estimated_time = PyStr ''Unable to estimate time due to lack of traffic data.''\<rparr>)"
proof -
  have "fst (optimize_route E model locations api_key w) ! i
          = \<lparr>leg_from = locations ! i, leg_to = locations ! (i + 1),
             estimated_time = PyStr ''Unable to estimate time due to lack of traffic data.''\<rparr>"
    if i: "i < length locations - 1"
      and f: "provider_failure
          (fst (requests_get E (traffic_url E api_key (locations ! i) (locations ! (i + 1)))
                  (worlds E api_key locations [0..<length locations - 1] w ! i)))" for i
  proof -
    from i have "snapshots E api_key locations w ! i
        = fst (get_real_time_traffic_data E api_key (locations ! i) (locations ! (i + 1))
                 (worlds E api_key locations [0..<length locations - 1] w ! i))"
      unfolding snapshots_def by (simp add: fetched_nth)
    also have "\<dots> = None" using f by (rule get_failure)
    finally show ?thesis using i
      by (simp add: route_nth estimate_travel_time_def unavailable_def)
  qed
  then show ?thesis
    by (simp add: length_route get_failure)
qed

theorem provider_failure_absorbed_witness:
  "provider_failure (fst (requests_get flaky (traffic_url flaky ''k'' (stops4 ! 1) (stops4 ! 2)) 1))
   \<and> fst (get_real_time_traffic_data flaky ''k'' (stops4 ! 1) (stops4 ! 2) 1) = None
   \<and> worlds flaky ''k'' stops4 [0..<length stops4 - 1] 0 = [0, 1, 2]
   \<and> provider_failure (fst (requests_get flaky (traffic_url flaky ''k'' (stops4 ! 2) (stops4 ! 3)) 2))
   \<and> length (fst (optimize_route flaky fitted stops4 ''k'' 0)) = 3
   \<and> fst (optimize_route flaky fitted stops4 ''k'' 0) ! 1
       = \<lparr>leg_from = stops4 ! 1, leg_to = stops4 ! (1 + 1),
          estimated_time = PyStr ''Unable to estimate time due to lack of traffic data.''\<rparr>
   \<and> fst (optimize_route flaky fitted stops4 ''k'' 0) ! 2
       = \<lparr>leg_from = stops4 ! 2, leg_to = stops4 ! (2 + 1),
          estimated_time = PyStr ''Unable to estimate time due to lack of traffic data.''\<rparr>"
proof -
  note T = provider_failure_absorbed[of flaky "''k''" "stops4 ! 1" "stops4 ! 2" 1 fitted stops4 0]
  have w: "worlds flaky ''k'' stops4 [0..<length stops4 - 1] 0 = [0, 1, 2]"
    by (simp add: stops4_def stops3_def flaky_def get_real_time_traffic_data_def upt_rec
        raise_for_status_def json_def)
  have f0: "provider_failure
     (fst (requests_get flaky (traffic_url flaky ''k'' (stops4 ! 1) (stops4 ! 2)) 1))"
    by (simp add: flaky_def provider_failure_def)
  have f1: "provider_failure
     (fst (requests_get flaky (traffic_url flaky ''k'' (stops4 ! 1) (stops4 ! (1 + 1)))
             (worlds flaky ''k'' stops4 [0..<length stops4 - 1] 0 ! 1)))"
    unfolding w by (simp add: flaky_def provider_failure_def)
  have f2: "provider_failure
     (fst (requests_get flaky (traffic_url flaky ''k'' (stops4 ! 2) (stops4 ! (2 + 1)))
             (worlds flaky ''k'' stops4 [0..<length stops4 - 1] 0 ! 2)))"
    unfolding w by (simp add: flaky_def provider_failure_def)
  have f3: "provider_failure
     (fst (requests_get flaky (traffic_url flaky ''k'' (stops4 ! 2) (stops4 ! 3)) 2))"
    by (simp add: flaky_def provider_failure_def)
  have i1: "1 < length stops4 - 1" and i2: "2 < length stops4 - 1" and n: "length stops4 - 1 = 3"
    by (simp_all add: stops4_def stops3_def)
  from T f0 have c1: "fst (get_real_time_traffic_data flaky ''k'' (stops4 ! 1) (stops4 ! 2) 1) = None"
    by blast
  from T n have c2: "length (fst (optimize_route flaky fitted stops4 ''k'' 0)) = 3"
    by simp
  note A = T[THEN conjunct2, THEN conjunct2, rule_format]
  show ?thesis
    using f0 c1 w f3 c2 A[OF i1 f1] A[OF i2 f2] by blast
qed

lemma same_availability_same_route:
  assumes "map (\<lambda>s. s = None) (snapshots E1 k1 locs w1)
         = map (\<lambda>s. s = None) (snapshots E2 k2 locs w2)"
  shows "fst (optimize_route E1 m locs k1 w1) = fst (optimize_route E2 m locs k2 w2)"
proof (rule nth_equalityI)
  show "length (fst (optimize_route E1 m locs k1 w1)) = length (fst (optimize_route E2 m locs k2 w2))"
    by (simp add: length_route)
next
  fix i assume "i < length (fst (optimize_route E1 m locs k1 w1))"
  then have i: "i < length locs - 1" by (simp add: length_route)
  from assms have "map (\<lambda>s. s = None) (snapshots E1 k1 locs w1) ! i
      = map (\<lambda>s. s = None) (snapshots E2 k2 locs w2) ! i"
    by simp
  with i have "(snapshots E1 k1 locs w1 ! i = None) = (snapshots E2 k2 locs w2 ! i = None)"
    by (simp add: length_snapshots)
  then have "estimate_travel_time m 10 (snapshots E1 k1 locs w1 ! i)
      = estimate_travel_time m 10 (snapshots E2 k2 locs w2 ! i)"
    by (cases "snapshots E1 k1 locs w1 ! i"; cases "snapshots E2 k2 locs w2 ! i")
      (simp_all add: estimate_travel_time_def)
  with i show "fst (optimize_route E1 m locs k1 w1) ! i = fst (optimize_route E2 m locs k2 w2) ! i"
    by (simp add: route_nth)
qed

text \<open>
  C8: with a present snapshot the estimate does not depend on what the snapshot contains:
  any two present snapshots give the same estimate for the same distance and model, and two
  runs over the same stops whose snapshots are present at the same legs return the same
  route, whatever the snapshots hold.
\<close>

theorem snapshot_contents_irrelevant:
  "estimate_travel_time model distance (Some d1) = estimate_travel_time model distance (Some d2)
   \<and> (map (\<lambda>s. s = None) (snapshots E1 k1 locations w1)
        = map (\<lambda>s. s = None) (snapshots E2 k2 locations w2)
      \<longrightarrow> fst (optimize_route E1 model locations k1 w1)
          = fst (optimize_route E2 model locations k2 w2))"
  using same_availability_same_route[of E1 k1 locations w1 E2 k2 w2 model]
  by (simp add: estimate_travel_time_def)

theorem snapshot_contents_irrelevant_witness:
  "snapshots (steady_with (1::nat)) ''k'' stops3 0 = [Some 1, Some 1]
   \<and> snapshots (steady_with ''jam'') ''k'' stops3 0 = [Some ''jam'', Some ''jam'']
   \<and> estimate_travel_time fitted 10 (Some (1::nat)) = estimate_travel_time fitted 10 (Some ''jam'')
   \<and> fst (optimize_route (steady_with (1::nat)) fitted stops3 ''k'' 0)
       = fst (optimize_route (steady_with ''jam'') fitted stops3 ''k'' 0)"
proof -
  have a: "snapshots (steady_with (1::nat)) ''k'' stops3 0 = [Some 1, Some 1]"
    by (simp add: snapshots_def stops3_def steady_with_def get_real_time_traffic_data_def upt_rec
        raise_for_status_def json_def)
  have b: "snapshots (steady_with ''jam'') ''k'' stops3 0 = [Some ''jam'', Some ''jam'']"
    by (simp add: snapshots_def stops3_def steady_with_def get_real_time_traffic_data_def upt_rec
        raise_for_status_def json_def)
  from snapshot_contents_irrelevant[of fitted 10 "1::nat" "''jam''" "steady_with (1::nat)" "''k''"
      stops3 0 "steady_with ''jam''" "''k''" 0] a b
  show ?thesis by simp
qed

lemma stateless_fetched:
  assumes "\<forall>s e w w'. fst (get_real_time_traffic_data E k s e w)
                     = fst (get_real_time_traffic_data E k s e w')"
  shows "fetched E k locs is w1 = fetched E k locs is w2"
proof (induction "is" arbitrary: w1 w2)
  case Nil
  show ?case by simp
next
  case (Cons i "is")
  have "fst (get_real_time_traffic_data E k (locs ! i) (locs ! (i + 1)) w1)
      = fst (get_real_time_traffic_data E k (locs ! i) (locs ! (i + 1)) w2)"
    using assms by blast
  with Cons.IH show ?case
    by (auto split: prod.splits)
qed

text \<open>
  C9: the route is a function of the stops, the model and the snapshots the provider
  returns.  When the provider returns, for each pair of stops, the same snapshot whatever the
  state of the world, two calls with the same stops, model and key return identical routes,
  from whichever worlds they start.
\<close>

theorem optimize_route_deterministic:
  assumes "\<forall>start endp w w'. fst (get_real_time_traffic_data E api_key start endp w)
                            = fst (get_real_time_traffic_data E api_key start endp w')"
  shows "fst (optimize_route E model locations api_key w1)
       = fst (optimize_route E model locations api_key w2)"
proof -
  have "snapshots E api_key locations w1 = snapshots E api_key locations w2"
    unfolding snapshots_def using assms by (rule stateless_fetched)
  then show ?thesis by (simp add: route_char)
qed

theorem optimize_route_deterministic_witness:
  "(\<forall>start endp w w'. fst (get_real_time_traffic_data steady ''k'' start endp w)
                      = fst (get_real_time_traffic_data steady ''k'' start endp w'))
   \<and> fst (optimize_route steady fitted stops3 ''k'' 0)
       = fst (optimize_route steady fitted stops3 ''k'' 7)"
proof -
  have h: "\<forall>start endp w w'. fst (get_real_time_traffic_data steady ''k'' start endp w)
                          = fst (get_real_time_traffic_data steady ''k'' start endp w')"
    by (simp add: steady_def steady_with_def get_real_time_traffic_data_def
        raise_for_status_def json_def)
  from optimize_route_deterministic[OF h, of fitted stops3 0 7] h show ?thesis by simp
qed

lemma route_member:
  assumes "l \<in> set (fst (optimize_route E m locs k w))"
  shows "estimated_time l = PyStr unavailable
       \<or> estimated_time l = PyFloat ((10 / 50) * 60 + predict m 10)"
proof -
  from assms obtain i where i: "i < length locs - 1"
    and l: "l = fst (optimize_route E m locs k w) ! i"
    by (auto simp add: in_set_conv_nth length_route)
  show ?thesis unfolding l using i
    by (cases "snapshots E k locs w ! i") (simp_all add: route_nth estimate_travel_time_def)
qed

text \<open>
  C10: the loop passes the constant distance 10 for every consecutive pair.  Hence every
  numeric estimate in any route is \<open>(10 / 50) * 60 + predict(10)\<close>: two legs with numeric
  estimates carry the same number, whatever their coordinates, their routes, their providers
  and their keys.
\<close>

theorem fixed_distance:
  assumes "l \<in> set (fst (optimize_route E model locations api_key w))"
      and "l' \<in> set (fst (optimize_route E' model locations' api_key' w'))"
      and "estimated_time l = PyFloat a" and "estimated_time l' = PyFloat b"
  shows "a = (10 / 50) * 60 + predict model 10 \<and> b = a"
  using route_member[OF assms(1)] route_member[OF assms(2)] assms(3,4) by simp

theorem fixed_distance_witness:
  "\<lparr>leg_from = stops3 ! 0, leg_to = stops3 ! 1, estimated_time = PyFloat (47 / 2)\<rparr>
     \<in> set (fst (optimize_route flaky \<lparr>coef = 7 / 5, intercept = - 5 / 2\<rparr> stops3 ''k'' 0))
   \<and> \<lparr>leg_from = stops4 ! 2, leg_to = stops4 ! 3, estimated_time = PyFloat (47 / 2)\<rparr>
     \<in> set (fst (optimize_route steady \<lparr>coef = 7 / 5, intercept = - 5 / 2\<rparr> stops4 ''other'' 0))
   \<and> (47 / 2 :: real) = (10 / 50) * 60 + predict \<lparr>coef = 7 / 5, intercept = - 5 / 2\<rparr> 10"
proof -
  let ?m = "\<lparr>coef = 7 / 5, intercept = - 5 / 2\<rparr>"
  let ?l = "\<lparr>leg_from = stops3 ! 0, leg_to = stops3 ! 1, estimated_time = PyFloat (47 / 2)\<rparr>"
  let ?l' = "\<lparr>leg_from = stops4 ! 2, leg_to = stops4 ! 3, estimated_time = PyFloat (47 / 2)\<rparr>"
  have a: "?l \<in> set (fst (optimize_route flaky ?m stops3 ''k'' 0))"
    by (simp add: optimize_route_def stops3_def flaky_def get_real_time_traffic_data_def upt_rec
        raise_for_status_def json_def estimate_travel_time_def predict_def)
  have b: "?l' \<in> set (fst (optimize_route steady ?m stops4 ''other'' 0))"
    by (simp add: optimize_route_def stops4_def stops3_def steady_def steady_with_def
        get_real_time_traffic_data_def upt_rec raise_for_status_def json_def
        estimate_travel_time_def predict_def)
  from fixed_distance[OF a b, of "47 / 2" "47 / 2"] a b show ?thesis by simp
qed

end
